theory Spec2Isabelle
  imports Complex_Main
begin

section \<open>The candidate enumerator \<open>get_values\<close>\<close>

text \<open>
  Python's \<open>range(start, stop, step)\<close> over unbounded integers, with the length formula
  of the interpreter. A zero step raises in Python; \<open>get_values\<close> only uses the steps
  \<open>1\<close> and \<open>-1\<close>.
\<close>

definition range_len :: "int \<Rightarrow> int \<Rightarrow> int \<Rightarrow> nat" where
  "range_len start stop step =
     (if 0 < step \<and> start < stop then nat (1 + (stop - 1 - start) div step)
      else if step < 0 \<and> stop < start then nat (1 + (start - 1 - stop) div (- step))
      else 0)"

definition range_py :: "int \<Rightarrow> int \<Rightarrow> int \<Rightarrow> int list" where
  "range_py start stop step =
     map (\<lambda>i. start + int i * step) [0..<range_len start stop step]"

text \<open>\<open>itertools.chain(*iterables)\<close>: the iterables one after the other.\<close>

definition chain :: "'a list list \<Rightarrow> 'a list" where
  "chain iterables = concat iterables"

text \<open>
  The local \<open>numbers\<close> of \<open>get_values\<close>:
  \<open>chain(*zip(range(n + 1), range(-1, -n - 1, -1)), [n])\<close>. Python's \<open>zip\<close> stops at
  the shorter argument, as \<^const>\<open>zip\<close> does; each tuple of the zip is one iterable of
  the chain, and the list \<open>[n]\<close> is the last one.
\<close>

definition numbers :: "int \<Rightarrow> int list" where
  "numbers n =
     chain (map (\<lambda>(p, q). [p, q]) (zip (range_py 0 (n + 1) 1) (range_py (- 1) (- n - 1) (- 1)))
            @ [[n]])"

text \<open>
  \<open>product(numbers, repeat=2)\<close> reads the iterator \<open>numbers\<close> once into a pool and pairs
  the pool with itself, the first coordinate varying slowest. The generator is modelled
  by the list of the pairs it yields, in order.
\<close>

definition get_values :: "int \<Rightarrow> (int \<times> int) list" where
  "get_values n = (if n < 0 then [] else List.product (numbers n) (numbers n))"


section \<open>Symbolic expressions\<close>

text \<open>
  The expressions the calculator builds are polynomials in the four symbols \<open>x\<close>,
  \<open>y\<close>, \<open>A\<close>, \<open>B\<close>. An expression is a sum of monomials, a monomial a coefficient
  and one exponent for each symbol. Coefficients are exact rationals: every Python
  integer and every finite float is one, and the rounding of the 15-digit floats of
  \<open>evalf\<close> is not modelled.
\<close>

datatype sym = SymX | SymY | SymA | SymB

datatype mono = Mono (coef: rat) (px: nat) (py: nat) (pa: nat) (pb: nat)

type_synonym expr = "mono list"

fun deg :: "sym \<Rightarrow> mono \<Rightarrow> nat" where
  "deg SymX m = px m"
| "deg SymY m = py m"
| "deg SymA m = pa m"
| "deg SymB m = pb m"

fun set_deg :: "sym \<Rightarrow> nat \<Rightarrow> mono \<Rightarrow> mono" where
  "set_deg SymX k (Mono c i j a b) = Mono c k j a b"
| "set_deg SymY k (Mono c i j a b) = Mono c i k a b"
| "set_deg SymA k (Mono c i j a b) = Mono c i j k b"
| "set_deg SymB k (Mono c i j a b) = Mono c i j a k"

fun scale :: "rat \<Rightarrow> mono \<Rightarrow> mono" where
  "scale r (Mono c i j a b) = Mono (r * c) i j a b"

fun mono_mul :: "mono \<Rightarrow> mono \<Rightarrow> mono" where
  "mono_mul (Mono c i j a b) (Mono c' i' j' a' b') = Mono (c * c') (i + i') (j + j') (a + a') (b + b')"

definition Symbol :: "sym \<Rightarrow> expr" where
  "Symbol s = [set_deg s 1 (Mono 1 0 0 0 0)]"

definition Number :: "rat \<Rightarrow> expr" where
  "Number r = [Mono r 0 0 0 0]"

definition add :: "expr \<Rightarrow> expr \<Rightarrow> expr" where
  "add p q = p @ q"

definition neg :: "expr \<Rightarrow> expr" where
  "neg p = map (scale (- 1)) p"

definition sub :: "expr \<Rightarrow> expr \<Rightarrow> expr" where
  "sub p q = add p (neg q)"

definition mul :: "expr \<Rightarrow> expr \<Rightarrow> expr" where
  "mul p q = concat (map (\<lambda>m. map (mono_mul m) q) p)"

primrec pow_expr :: "expr \<Rightarrow> nat \<Rightarrow> expr" where
  "pow_expr p 0 = Number 1"
| "pow_expr p (Suc k) = mul p (pow_expr p k)"

text \<open>
  \<open>expr.diff(s)\<close>, term by term: \<open>c * s^k\<close> becomes \<open>k * c * s^(k - 1)\<close>; a term
  without \<open>s\<close> gets the coefficient \<open>0\<close>.
\<close>

definition mono_diff :: "sym \<Rightarrow> mono \<Rightarrow> mono" where
  "mono_diff s m = set_deg s (deg s m - 1) (scale (of_nat (deg s m)) m)"

definition diff :: "expr \<Rightarrow> sym \<Rightarrow> expr" where
  "diff p s = map (mono_diff s) p"

text \<open>
  \<open>integrate(expr, s)\<close> on a polynomial, term by term: \<open>c * s^k\<close> becomes
  \<open>c / (k + 1) * s^(k + 1)\<close>, and no constant of integration is added.
\<close>

definition mono_integrate :: "sym \<Rightarrow> mono \<Rightarrow> mono" where
  "mono_integrate s m = set_deg s (deg s m + 1) (scale (1 / of_nat (deg s m + 1)) m)"

definition integrate :: "expr \<Rightarrow> sym \<Rightarrow> expr" where
  "integrate p s = map (mono_integrate s) p"

text \<open>
  \<open>expr.evalf(subs=d)\<close> for a dictionary \<open>d\<close> from symbols to numbers: every symbol
  that is a key of \<open>d\<close> is replaced by its value, the others stay.
\<close>

definition subs1 :: "(sym \<rightharpoonup> rat) \<Rightarrow> sym \<Rightarrow> mono \<Rightarrow> mono" where
  "subs1 d s m =
     (case d s of None \<Rightarrow> m | Some v \<Rightarrow> set_deg s 0 (scale (v ^ deg s m) m))"

definition mono_subs :: "(sym \<rightharpoonup> rat) \<Rightarrow> mono \<Rightarrow> mono" where
  "mono_subs d m = subs1 d SymB (subs1 d SymA (subs1 d SymY (subs1 d SymX m)))"

definition evalf :: "expr \<Rightarrow> (sym \<rightharpoonup> rat) \<Rightarrow> expr" where
  "evalf p d = map (mono_subs d) p"

text \<open>
  The number an expression without symbols stands for. The comparisons of \<open>solve\<close>
  are made on such expressions only (lemma \<open>evalf_closed\<close> below): its dictionaries
  bind all four symbols. On an expression with a symbol left, the comparison of the
  source would not give a truth value.
\<close>

definition is_number :: "expr \<Rightarrow> bool" where
  "is_number p = list_all (\<lambda>m. px m = 0 \<and> py m = 0 \<and> pa m = 0 \<and> pb m = 0) p"

definition num :: "expr \<Rightarrow> rat" where
  "num p = sum_list (map coef p)"

text \<open>The value of an expression when every symbol has a value.\<close>

definition mono_eval :: "(sym \<Rightarrow> rat) \<Rightarrow> mono \<Rightarrow> rat" where
  "mono_eval env m =
     coef m * env SymX ^ px m * env SymY ^ py m * env SymA ^ pa m * env SymB ^ pb m"

definition eval :: "(sym \<Rightarrow> rat) \<Rightarrow> expr \<Rightarrow> rat" where
  "eval env p = sum_list (map (mono_eval env) p)"

definition env_of :: "rat \<Rightarrow> rat \<Rightarrow> rat \<Rightarrow> rat \<Rightarrow> sym \<Rightarrow> rat" where
  "env_of x y a b s = (case s of SymX \<Rightarrow> x | SymY \<Rightarrow> y | SymA \<Rightarrow> a | SymB \<Rightarrow> b)"


section \<open>The class \<open>FunctionCalculator\<close>\<close>

record calc =
  max_x :: rat
  max_y :: rat
  min_x :: rat
  min_y :: rat
  saddle_x :: rat
  saddle_y :: rat
  print_steps :: bool
  f_x :: expr
  f_y :: expr
  general_form :: expr
  f_xx :: expr
  d_xy :: expr

definition get_first_order_partial_derivatives :: "calc \<Rightarrow> expr \<times> expr" where
  "get_first_order_partial_derivatives self =
     (let f_x = sub (mul (mul (Symbol SymA) (Symbol SymX)) (Symbol SymX))
                    (mul (mul (Symbol SymA) (Symbol SymX)) (Number (max_x self)));
          f_y = sub (mul (mul (Symbol SymB) (Symbol SymY)) (Symbol SymY))
                    (mul (mul (Symbol SymB) (Symbol SymY)) (Number (min_y self)))
      in (f_x, f_y))"

definition get_general_form :: "calc \<Rightarrow> expr" where
  "get_general_form self =
     (let func_x = integrate (f_x self) SymX;
          func_y = integrate (f_y self) SymY
      in add func_y func_x)"

definition get_second_partial_derivatives :: "calc \<Rightarrow> expr \<times> expr" where
  "get_second_partial_derivatives self =
     (let f_xx = diff (f_x self) SymX;
          f_yy = diff (f_y self) SymY;
          f_xy = diff (f_x self) SymY;
          d_xy = sub (mul f_xx f_yy) (pow_expr f_xy 2)
      in (f_xx, d_xy))"

text \<open>
  The constructor. An argument is a Python tuple of numbers of any length; the
  assignment \<open>a, b = t\<close> raises \<open>ValueError\<close> unless \<open>t\<close> has two elements, and the
  three assignments are made in the order maximum, minimum, saddle.
\<close>

datatype error = ValueError_not_enough_values | ValueError_too_many_values

fun unpack2 :: "'a list \<Rightarrow> error + ('a \<times> 'a)" where
  "unpack2 [a, b] = Inr (a, b)"
| "unpack2 [] = Inl ValueError_not_enough_values"
| "unpack2 [a] = Inl ValueError_not_enough_values"
| "unpack2 (a # b # c # t) = Inl ValueError_too_many_values"

text \<open>
  The statements of \<open>__init__\<close> that follow the three tuple assignments: the
  fields are set one after the other, each method reading the fields set before it.
\<close>

definition init_body :: "rat \<times> rat \<Rightarrow> rat \<times> rat \<Rightarrow> rat \<times> rat \<Rightarrow> bool \<Rightarrow> calc" where
  "init_body maximum minimum saddle steps =
     (let self0 = \<lparr>max_x = fst maximum, max_y = snd maximum,
                   min_x = fst minimum, min_y = snd minimum,
                   saddle_x = fst saddle, saddle_y = snd saddle, print_steps = steps,
                   f_x = [], f_y = [], general_form = [], f_xx = [], d_xy = []\<rparr>;
          fs = get_first_order_partial_derivatives self0;
          self1 = self0\<lparr>f_x := fst fs, f_y := snd fs\<rparr>;
          self2 = self1\<lparr>general_form := get_general_form self1\<rparr>;
          ds = get_second_partial_derivatives self2
      in self2\<lparr>f_xx := fst ds, d_xy := snd ds\<rparr>)"

definition init :: "rat list \<Rightarrow> rat list \<Rightarrow> rat list \<Rightarrow> bool \<Rightarrow> error + calc" where
  "init maximum minimum saddle steps =
     (case unpack2 maximum of Inl e \<Rightarrow> Inl e | Inr mx \<Rightarrow>
      case unpack2 minimum of Inl e \<Rightarrow> Inl e | Inr mn \<Rightarrow>
      case unpack2 saddle of Inl e \<Rightarrow> Inl e | Inr sd \<Rightarrow>
        Inr (init_body mx mn sd steps))"

text \<open>
  One row of the printed table: the point, its label, and the two conditions, each an
  expression with the text that follows it. The rendering of an expression as text is
  not modelled. Standard output is the list of the tables printed.
\<close>

type_synonym row = "(rat \<times> rat) \<times> string \<times> (expr \<times> string) \<times> (expr \<times> string)"

text \<open>
  The method returns a list of six expressions, which \<open>solve\<close> unpacks into six
  names at once: a tuple of six here.
\<close>

type_synonym six = "expr \<times> expr \<times> expr \<times> expr \<times> expr \<times> expr"

definition evaluate_derivative_at_stationary_points :: "calc \<Rightarrow> six \<times> row list list" where
  "evaluate_derivative_at_stationary_points self =
     (let f_xx_at_max = evalf (f_xx self) [SymX \<mapsto> max_x self, SymY \<mapsto> max_y self];
          f_xx_at_min = evalf (f_xx self) [SymX \<mapsto> min_x self, SymY \<mapsto> min_y self];
          f_xx_at_saddle = evalf (f_xx self) [SymX \<mapsto> saddle_x self, SymY \<mapsto> saddle_y self];
          d_at_max = evalf (d_xy self) [SymX \<mapsto> max_x self, SymY \<mapsto> max_y self];
          d_at_min = evalf (d_xy self) [SymX \<mapsto> min_x self, SymY \<mapsto> min_y self];
          d_at_saddle = evalf (d_xy self) [SymX \<mapsto> saddle_x self, SymY \<mapsto> saddle_y self];
          out = (if print_steps self
                 then [[((max_x self, max_y self), ''Maximum'',
                           (f_xx_at_max, '' < 0''), (d_at_max, '' > 0'')),
                        ((min_x self, min_y self), ''Minimum'',
                           (f_xx_at_min, '' > 0''), (d_at_min, '' > 0'')),
                        ((saddle_x self, saddle_y self), ''Saddle'',
                           (f_xx_at_saddle, '' != 0''), (d_at_saddle, '' < 0''))]]
                 else [])
      in ((f_xx_at_max, f_xx_at_min, f_xx_at_saddle, d_at_max, d_at_min, d_at_saddle), out))"

datatype solution = Func expr | Str string

primrec all_py :: "bool list \<Rightarrow> bool" where
  "all_py [] = True"
| "all_py (b # bs) = (b \<and> all_py bs)"

text \<open>The list \<open>evaluated_funcs\<close> of one iteration of the loop of \<open>solve\<close>.\<close>

definition evaluated_funcs :: "calc \<Rightarrow> six \<Rightarrow> int \<times> int \<Rightarrow> bool list" where
  "evaluated_funcs self vals item =
     (case vals of (f_xx_at_max, f_xx_at_min, f_xx_at_saddle, d_at_max, d_at_min, d_at_saddle) \<Rightarrow>
      case item of (a, b) \<Rightarrow>
      let subs_at_max = [SymX \<mapsto> max_x self, SymY \<mapsto> max_y self,
                         SymA \<mapsto> of_int a, SymB \<mapsto> of_int b];
          subs_at_min = [SymX \<mapsto> min_x self, SymY \<mapsto> min_y self,
                         SymA \<mapsto> of_int a, SymB \<mapsto> of_int b];
          subs_at_saddle = [SymX \<mapsto> saddle_x self, SymY \<mapsto> saddle_y self,
                            SymA \<mapsto> of_int a, SymB \<mapsto> of_int b]
      in [num (evalf f_xx_at_max subs_at_max) < 0,
          num (evalf f_xx_at_min subs_at_min) > 0,
          num (evalf f_xx_at_saddle subs_at_saddle) \<noteq> 0,
          num (evalf d_at_max subs_at_max) > 0,
          num (evalf d_at_min subs_at_min) > 0,
          num (evalf d_at_saddle subs_at_saddle) < 0])"

text \<open>The \<open>for ... else\<close> loop of \<open>solve\<close> over the items the generator yields.\<close>

fun search :: "calc \<Rightarrow> six \<Rightarrow> (int \<times> int) list \<Rightarrow> solution" where
  "search self vals [] = Str ''Solution could not be found''"
| "search self vals (item # items) =
     (if all_py (evaluated_funcs self vals item)
      then Func (evalf (general_form self) [SymA \<mapsto> of_int (fst item), SymB \<mapsto> of_int (snd item)])
      else search self vals items)"

definition solve :: "calc \<Rightarrow> int \<Rightarrow> solution \<times> row list list" where
  "solve self n =
     (case evaluate_derivative_at_stationary_points self of
        (vals, out) \<Rightarrow> (search self vals (get_values n), out))"


section \<open>Notions of the specification\<close>

text \<open>
  The six predicates in the specification's words: \<open>f_xx\<close> and the discriminant
  \<open>d_xy\<close>, with the candidate \<open>(A, B)\<close> and the coordinates of one stationary point
  substituted, compared with zero.
\<close>

definition six_predicates :: "calc \<Rightarrow> int \<Rightarrow> int \<Rightarrow> bool" where
  "six_predicates c a b =
     (eval (env_of (max_x c) (max_y c) (of_int a) (of_int b)) (f_xx c) < 0 \<and>
      eval (env_of (min_x c) (min_y c) (of_int a) (of_int b)) (f_xx c) > 0 \<and>
      eval (env_of (saddle_x c) (saddle_y c) (of_int a) (of_int b)) (f_xx c) \<noteq> 0 \<and>
      eval (env_of (max_x c) (max_y c) (of_int a) (of_int b)) (d_xy c) > 0 \<and>
      eval (env_of (min_x c) (min_y c) (of_int a) (of_int b)) (d_xy c) > 0 \<and>
      eval (env_of (saddle_x c) (saddle_y c) (of_int a) (of_int b)) (d_xy c) < 0)"

text \<open>The position of the first candidate of a list that satisfies the six predicates.\<close>

definition first_accepted :: "calc \<Rightarrow> (int \<times> int) list \<Rightarrow> nat" where
  "first_accepted c items =
     length (takeWhile (\<lambda>item. \<not> six_predicates c (fst item) (snd item)) items)"

text \<open>The sequence \<open>0, -1, 1, -2, \<dots>, m - 1, -m\<close>.\<close>

definition interleaved :: "nat \<Rightarrow> int list" where
  "interleaved m = concat (map (\<lambda>k. [int k, - int k - 1]) [0..<m])"

text \<open>An environment, with the symbols of a dictionary taking their values from it.\<close>

definition ov :: "(sym \<rightharpoonup> rat) \<Rightarrow> (sym \<Rightarrow> rat) \<Rightarrow> sym \<Rightarrow> rat" where
  "ov d env s = (case d s of None \<Rightarrow> env s | Some v \<Rightarrow> v)"

text \<open>The calculator of the repository's example script.\<close>

definition example :: calc where
  "example = init_body (25, 15) (- 5, - 12) (0, 0) False"

section \<open>Properties of the enumerator\<close>

lemma range_py_up: "range_py 0 (n + 1) 1 = [0..n]"
proof (rule nth_equalityI)
  show "length (range_py 0 (n + 1) 1) = length [0..n]"
    by (simp add: range_py_def range_len_def add.commute)
next
  fix i assume "i < length (range_py 0 (n + 1) 1)"
  then have "int i \<le> n" by (simp add: range_py_def range_len_def split: if_splits)
  then show "range_py 0 (n + 1) 1 ! i = [0..n] ! i"
    by (simp add: range_py_def range_len_def add.commute)
qed

lemma range_py_down: "range_py (- 1) (- n - 1) (- 1) = map uminus [1..n]"
proof (rule nth_equalityI)
  show "length (range_py (- 1) (- n - 1) (- 1)) = length (map uminus [1..n])"
    by (simp add: range_py_def range_len_def add.commute)
next
  fix i assume "i < length (range_py (- 1) (- n - 1) (- 1))"
  then have "1 + int i \<le> n" by (simp add: range_py_def range_len_def split: if_splits)
  then show "range_py (- 1) (- n - 1) (- 1) ! i = map uminus [1..n] ! i"
    by (simp add: range_py_def range_len_def add.commute)
qed

lemma range_up: "0 \<le> n \<Longrightarrow> range_py 0 (n + 1) 1 = map int [0..<Suc (nat n)]"
  by (simp add: range_py_def range_len_def nat_add_distrib)

lemma range_down: "0 \<le> n \<Longrightarrow> range_py (- 1) (- n - 1) (- 1) = map (\<lambda>k. - int k - 1) [0..<nat n]"
  by (auto simp add: range_py_def range_len_def)

lemma zip_upt_trunc: "zip (map f [0..<Suc m]) (map g [0..<m]) = map (\<lambda>k. (f k, g k)) [0..<m]"
proof -
  have "zip (map f [0..<Suc m]) (map g [0..<m]) = zip (map f [0..<m] @ [f m]) (map g [0..<m])"
    by simp
  also have "\<dots> = zip (map f [0..<m]) (map g [0..<m])"
    by (simp add: zip_append1)
  also have "\<dots> = map (\<lambda>k. (f k, g k)) [0..<m]"
    by (simp add: zip_map_map zip_same_conv_map comp_def)
  finally show ?thesis .
qed

lemma numbers_interleaved: "0 \<le> n \<Longrightarrow> numbers n = interleaved (nat n) @ [n]"
  unfolding numbers_def chain_def interleaved_def
  by (simp only: range_up range_down zip_upt_trunc) (simp add: comp_def)

lemma numbers_upto:
  "numbers n = concat (map (\<lambda>(p, q). [p, q]) (zip [0..n] (map uminus [1..n]))) @ [n]"
  by (simp add: numbers_def chain_def range_py_up range_py_down)

lemma interleaved_Suc: "interleaved (Suc m) = interleaved m @ [int m, - int m - 1]"
  by (simp add: interleaved_def)

lemma length_interleaved: "length (interleaved m) = 2 * m"
  by (induction m) (simp_all add: interleaved_def)

lemma set_interleaved: "set (interleaved m) = {- int m ..< int m}"
  by (induction m) (auto simp add: interleaved_def)

lemma distinct_interleaved: "distinct (interleaved m)"
proof (induction m)
  case 0
  show ?case by (simp add: interleaved_def)
next
  case (Suc m)
  then show ?case by (simp add: interleaved_Suc set_interleaved)
qed

lemma length_numbers: "0 \<le> n \<Longrightarrow> length (numbers n) = 2 * nat n + 1"
  by (simp add: numbers_interleaved length_interleaved)

lemma length_get_values: "0 \<le> n \<Longrightarrow> int (length (get_values n)) = (2 * n + 1)\<^sup>2"
  by (simp add: get_values_def length_numbers power2_eq_square algebra_simps)

lemma numbers_small: "numbers 0 = [0]" "numbers 1 = [0, - 1, 1]" "numbers 2 = [0, - 1, 1, - 2, 2]"
  by (simp_all add: numbers_upto upto.simps)

lemma get_values_0: "get_values 0 = [(0, 0)]"
  by (simp add: get_values_def numbers_small)

lemma get_values_1:
  "get_values 1 = [(0, 0), (0, - 1), (0, 1), (- 1, 0), (- 1, - 1), (- 1, 1), (1, 0), (1, - 1), (1, 1)]"
  by (simp add: get_values_def numbers_small)

text \<open>
  Claim C1, as stated, fails: for the bound \<open>1\<close> the number sequence is \<open>0, -1, 1\<close>,
  with a single \<open>1\<close>, and there are \<open>9\<close> candidates, not \<open>(2 * 1 + 2)\<^sup>2 = 16\<close>.
\<close>

theorem candidate_count_not_2n_plus_2_squared:
  "numbers 1 = [0, - 1, 1] \<and> length (get_values 1) = 9 \<and> int (length (get_values 1)) \<noteq> (2 * 1 + 2)\<^sup>2"
  by (simp add: get_values_1 numbers_small)

text \<open>
  Claim C1, amended: for every bound \<open>n \<ge> 0\<close> the number sequence interleaves
  \<open>0..n\<close> with \<open>-1..-n\<close> pair by pair and stops with the shorter of the two, after
  \<open>n\<close> pairs, so the last element \<open>n\<close> of the longer is dropped; \<open>n\<close> is then appended
  once and is the last element, occurring nowhere before. The number sequence has
  \<open>2n + 1\<close> elements and the candidate sequence, its Cartesian square, \<open>(2n + 1)\<^sup>2\<close>.
\<close>

theorem numbers_zip_truncates:
  assumes "0 \<le> n"
  shows "numbers n = concat (map (\<lambda>(p, q). [p, q]) (zip [0..n] (map uminus [1..n]))) @ [n]
       \<and> length (zip [0..n] (map uminus [1..n])) = nat n
       \<and> last (numbers n) = n \<and> n \<notin> set (butlast (numbers n))
       \<and> int (length (numbers n)) = 2 * n + 1
       \<and> int (length (get_values n)) = (2 * n + 1)\<^sup>2"
proof -
  have "numbers n = concat (map (\<lambda>(p, q). [p, q]) (zip [0..n] (map uminus [1..n]))) @ [n]"
    by (rule numbers_upto)
  moreover have "length (zip [0..n] (map uminus [1..n])) = nat n"
    using assms by simp
  moreover have "last (numbers n) = n"
    using assms by (simp add: numbers_interleaved)
  moreover have "n \<notin> set (butlast (numbers n))"
    using assms by (simp add: numbers_interleaved set_interleaved)
  moreover have "int (length (numbers n)) = 2 * n + 1"
    using assms by (simp add: length_numbers)
  moreover have "int (length (get_values n)) = (2 * n + 1)\<^sup>2"
    using assms by (rule length_get_values)
  ultimately show ?thesis by simp
qed

theorem numbers_zip_truncates_witness:
  "(0::int) \<le> 2 \<and> numbers 2 = [0, - 1, 1, - 2, 2] \<and> last (numbers 2) = 2
     \<and> 2 \<notin> set (butlast (numbers 2)) \<and> length (get_values 2) = 25"
  using numbers_zip_truncates [of 2] by (simp add: upto.simps)

text \<open>
  Claim C9: for every \<open>n \<ge> 0\<close> the enumerator yields exactly \<open>(2n + 1)\<^sup>2\<close> candidate
  pairs; the number sequence is \<open>0, -1, 1, -2, \<dots>, n - 1, -n\<close> followed by a single
  \<open>n\<close>, and holds each integer of \<open>[-n, n]\<close> exactly once.
\<close>

theorem candidate_count_2n_plus_1_squared:
  assumes "0 \<le> n"
  shows "int (length (get_values n)) = (2 * n + 1)\<^sup>2
       \<and> numbers n = concat (map (\<lambda>k. [int k, - int k - 1]) [0..<nat n]) @ [n]
       \<and> distinct (numbers n) \<and> set (numbers n) = {- n..n}
       \<and> distinct (get_values n)"
proof -
  have d: "distinct (numbers n)"
    using assms by (simp add: numbers_interleaved distinct_interleaved set_interleaved)
  have "set (numbers n) = {- n..n}"
    using assms by (auto simp add: numbers_interleaved set_interleaved)
  moreover have "distinct (get_values n)"
    using assms d by (simp add: get_values_def distinct_product)
  moreover have "numbers n = concat (map (\<lambda>k. [int k, - int k - 1]) [0..<nat n]) @ [n]"
    using assms by (simp add: numbers_interleaved interleaved_def)
  ultimately show ?thesis
    using assms d by (simp add: length_get_values)
qed

theorem candidate_count_2n_plus_1_squared_witness:
  "(0::int) \<le> 1 \<and> length (get_values 1) = 9 \<and> numbers 1 = [0, - 1, 1]
     \<and> distinct (numbers 1) \<and> set (numbers 1) = {- 1..1} \<and> distinct (get_values 1)"
proof -
  have h: "(0::int) \<le> 1" by simp
  note t = candidate_count_2n_plus_1_squared [OF h]
  have n1: "numbers 1 = [0, - 1, 1]" by (rule numbers_small)
  have len: "length (get_values 1) = 9" using t by simp
  have d: "distinct (numbers 1)" using t by blast
  have s: "set (numbers 1) = {- 1..1}" using t by blast
  have dv: "distinct (get_values 1)" using t by blast
  show ?thesis by (intro conjI h len n1 d s dv)
qed


section \<open>Properties of the symbolic expressions\<close>

lemma eval_Nil [simp]: "eval env [] = 0"
  by (simp add: eval_def)

lemma eval_Cons [simp]: "eval env (m # p) = mono_eval env m + eval env p"
  by (simp add: eval_def)

lemma eval_append: "eval env (p @ q) = eval env p + eval env q"
  by (simp add: eval_def)

lemma mono_eval_subs: "mono_eval env (mono_subs d m) = mono_eval (ov d env) m"
  by (cases m) (simp add: mono_subs_def subs1_def mono_eval_def ov_def split: option.splits)

lemma eval_evalf: "eval env (evalf p d) = eval (ov d env) p"
  by (induction p) (simp_all add: evalf_def mono_eval_subs)

lemma mono_subs_closed:
  "d SymX \<noteq> None \<Longrightarrow> d SymY \<noteq> None \<Longrightarrow> d SymA \<noteq> None \<Longrightarrow> d SymB \<noteq> None \<Longrightarrow>
   px (mono_subs d m) = 0 \<and> py (mono_subs d m) = 0 \<and> pa (mono_subs d m) = 0 \<and> pb (mono_subs d m) = 0"
  by (cases m) (auto simp add: mono_subs_def subs1_def)

lemma evalf_closed:
  "d SymX \<noteq> None \<Longrightarrow> d SymY \<noteq> None \<Longrightarrow> d SymA \<noteq> None \<Longrightarrow> d SymB \<noteq> None \<Longrightarrow>
   is_number (evalf p d)"
  by (induction p) (simp_all add: is_number_def evalf_def mono_subs_closed)

lemma num_eval: "is_number p \<Longrightarrow> num p = eval env p"
  by (induction p) (simp_all add: is_number_def num_def mono_eval_def)

lemma ov_twice:
  "ov [SymX \<mapsto> x, SymY \<mapsto> y] (ov [SymX \<mapsto> x', SymY \<mapsto> y', SymA \<mapsto> a, SymB \<mapsto> b] env) = env_of x y a b"
  by (rule ext) (simp add: ov_def env_of_def split: sym.splits)

lemma num_evalf_evalf:
  "num (evalf (evalf p [SymX \<mapsto> x, SymY \<mapsto> y]) [SymX \<mapsto> x', SymY \<mapsto> y', SymA \<mapsto> a, SymB \<mapsto> b])
     = eval (env_of x y a b) p"
proof -
  let ?d = "[SymX \<mapsto> x', SymY \<mapsto> y', SymA \<mapsto> a, SymB \<mapsto> b]"
  have "is_number (evalf (evalf p [SymX \<mapsto> x, SymY \<mapsto> y]) ?d)"
    by (rule evalf_closed) simp_all
  then have "num (evalf (evalf p [SymX \<mapsto> x, SymY \<mapsto> y]) ?d)
               = eval (\<lambda>s. 0) (evalf (evalf p [SymX \<mapsto> x, SymY \<mapsto> y]) ?d)"
    by (rule num_eval)
  then show ?thesis
    by (simp only: eval_evalf ov_twice)
qed

lemma eval_add: "eval env (add p q) = eval env p + eval env q"
  by (simp add: add_def eval_append)

lemma mono_eval_scale: "mono_eval env (scale r m) = r * mono_eval env m"
  by (cases m) (simp add: mono_eval_def)

lemma eval_neg: "eval env (neg p) = - eval env p"
  by (induction p) (simp_all add: neg_def mono_eval_scale)

lemma eval_sub: "eval env (sub p q) = eval env p - eval env q"
  by (simp add: sub_def eval_add eval_neg)

lemma mono_eval_mul: "mono_eval env (mono_mul m m') = mono_eval env m * mono_eval env m'"
  by (cases m; cases m') (simp add: mono_eval_def power_add)

lemma eval_map_mono_mul: "eval env (map (mono_mul m) q) = mono_eval env m * eval env q"
  by (induction q) (simp_all add: mono_eval_mul algebra_simps)

lemma eval_mul: "eval env (mul p q) = eval env p * eval env q"
  by (induction p) (simp_all add: mul_def eval_append eval_map_mono_mul algebra_simps)

lemma eval_Symbol: "eval env (Symbol s) = env s"
  by (cases s) (simp_all add: Symbol_def mono_eval_def)

lemma eval_Number: "eval env (Number r) = r"
  by (simp add: Number_def mono_eval_def)

lemma eval_pow_expr: "eval env (pow_expr p k) = eval env p ^ k"
  by (induction k) (simp_all add: eval_Number eval_mul)

lemmas eval_simps = eval_add eval_sub eval_neg eval_mul eval_Symbol eval_Number eval_pow_expr

section \<open>Properties of the constructor\<close>

lemma init_body_points:
  "max_x (init_body maximum minimum saddle ps) = fst maximum"
  "max_y (init_body maximum minimum saddle ps) = snd maximum"
  "min_x (init_body maximum minimum saddle ps) = fst minimum"
  "min_y (init_body maximum minimum saddle ps) = snd minimum"
  "saddle_x (init_body maximum minimum saddle ps) = fst saddle"
  "saddle_y (init_body maximum minimum saddle ps) = snd saddle"
  "print_steps (init_body maximum minimum saddle ps) = ps"
  by (simp_all add: init_body_def Let_def)

lemma init_body_f_x:
  "f_x (init_body maximum minimum saddle ps) = [Mono 1 2 0 1 0, Mono (- fst maximum) 1 0 1 0]"
  by (simp add: init_body_def Let_def get_first_order_partial_derivatives_def
        sub_def add_def neg_def mul_def Symbol_def Number_def)

lemma init_body_f_y:
  "f_y (init_body maximum minimum saddle ps) = [Mono 1 0 2 0 1, Mono (- snd minimum) 0 1 0 1]"
  by (simp add: init_body_def Let_def get_first_order_partial_derivatives_def
        sub_def add_def neg_def mul_def Symbol_def Number_def)

lemma init_body_general_form:
  "general_form (init_body maximum minimum saddle ps) =
     add (integrate (f_y (init_body maximum minimum saddle ps)) SymY)
         (integrate (f_x (init_body maximum minimum saddle ps)) SymX)"
  by (simp add: init_body_def Let_def get_general_form_def)

lemma init_body_f_xx:
  "f_xx (init_body maximum minimum saddle ps) = diff (f_x (init_body maximum minimum saddle ps)) SymX"
  by (simp add: init_body_def Let_def get_second_partial_derivatives_def)

lemma init_body_d_xy:
  "d_xy (init_body maximum minimum saddle ps) =
     sub (mul (diff (f_x (init_body maximum minimum saddle ps)) SymX)
              (diff (f_y (init_body maximum minimum saddle ps)) SymY))
         (pow_expr (diff (f_x (init_body maximum minimum saddle ps)) SymY) 2)"
  by (simp add: init_body_def Let_def get_second_partial_derivatives_def)

lemma eval_f_xx:
  "eval env (f_xx (init_body maximum minimum saddle ps))
     = 2 * env SymA * env SymX - env SymA * fst maximum"
  by (simp add: init_body_f_xx init_body_f_x diff_def mono_diff_def mono_eval_def)

lemma eval_d_xy:
  "eval env (d_xy (init_body maximum minimum saddle ps))
     = (2 * env SymA * env SymX - env SymA * fst maximum)
       * (2 * env SymB * env SymY - env SymB * snd minimum)"
  by (simp add: init_body_d_xy init_body_f_x init_body_f_y eval_simps diff_def mono_diff_def mono_eval_def)
     (simp add: algebra_simps)

lemma eval_general_form:
  "eval env (general_form (init_body maximum minimum saddle ps)) =
     env SymA * env SymX ^ 3 / 3 - env SymA * fst maximum * env SymX ^ 2 / 2
   + env SymB * env SymY ^ 3 / 3 - env SymB * snd minimum * env SymY ^ 2 / 2"
  by (simp add: init_body_general_form init_body_f_x init_body_f_y eval_simps integrate_def mono_integrate_def mono_eval_def)
     (simp add: algebra_simps power2_eq_square power3_eq_cube)

section \<open>Properties of the search\<close>

lemma accepted_iff:
  "all_py (evaluated_funcs c (fst (evaluate_derivative_at_stationary_points c)) (a, b))
     = six_predicates c a b"
  by (simp add: evaluated_funcs_def evaluate_derivative_at_stationary_points_def Let_def
        six_predicates_def num_evalf_evalf)

lemma search_rejected_prefix:
  "list_all (\<lambda>item. \<not> all_py (evaluated_funcs c vals item)) pre \<Longrightarrow>
     search c vals (pre @ rest) = search c vals rest"
  by (induction pre) simp_all

lemma search_none_accepted:
  "list_all (\<lambda>item. \<not> all_py (evaluated_funcs c vals item)) items \<Longrightarrow>
     search c vals items = Str ''Solution could not be found''"
  by (induction items) simp_all

lemma search_print_steps:
  "search (c\<lparr>print_steps := p\<rparr>) vals items = search c vals items"
  by (induction items) (simp_all add: evaluated_funcs_def)

lemma evaluate_print_steps:
  "fst (evaluate_derivative_at_stationary_points (c\<lparr>print_steps := p\<rparr>))
     = fst (evaluate_derivative_at_stationary_points c)"
  by (simp add: evaluate_derivative_at_stationary_points_def Let_def)

lemma fst_solve:
  "fst (solve c n) = search c (fst (evaluate_derivative_at_stationary_points c)) (get_values n)"
  by (simp add: solve_def split: prod.splits)

section \<open>Acceptance of a candidate and the first match\<close>

lemma six_predicates_init_body:
  "six_predicates (init_body (mx, my) (nx, ny) (sx, sy) ps) a b =
     (2 * of_int a * mx - of_int a * mx < 0 \<and>
      2 * of_int a * nx - of_int a * mx > 0 \<and>
      2 * of_int a * sx - of_int a * mx \<noteq> 0 \<and>
      (2 * of_int a * mx - of_int a * mx) * (2 * of_int b * my - of_int b * ny) > 0 \<and>
      (2 * of_int a * nx - of_int a * mx) * (2 * of_int b * ny - of_int b * ny) > 0 \<and>
      (2 * of_int a * sx - of_int a * mx) * (2 * of_int b * sy - of_int b * ny) < 0)"
  by (simp only: six_predicates_def eval_f_xx eval_d_xy init_body_points env_of_def sym.case fst_conv snd_conv)

lemma six_example:
  "six_predicates example a b = (a < 0 \<and> b < 0)"
  unfolding example_def six_predicates_init_body
  by (auto simp add: zero_less_mult_iff mult_less_0_iff)


lemma get_values_2:
  "get_values 2 = [(0, 0), (0, - 1), (0, 1), (0, - 2), (0, 2), (- 1, 0), (- 1, - 1),
     (- 1, 1), (- 1, - 2), (- 1, 2), (1, 0), (1, - 1), (1, 1), (1, - 2),
     (1, 2), (- 2, 0), (- 2, - 1), (- 2, 1), (- 2, - 2), (- 2, 2), (2, 0),
     (2, - 1), (2, 1), (2, - 2), (2, 2)]"
  by (simp add: get_values_def numbers_small)

lemma list_all_rejected:
  "list_all (\<lambda>item. \<not> six_predicates c (fst item) (snd item)) pre \<Longrightarrow>
   list_all (\<lambda>item. \<not> all_py (evaluated_funcs c (fst (evaluate_derivative_at_stationary_points c)) item)) pre"
  by (induction pre) (auto simp add: accepted_iff)

text \<open>
  Claim C2: a candidate pair \<open>(A, B)\<close> that the search examines (every candidate before
  it was rejected) is accepted if and only if the six predicates hold; on acceptance
  \<open>solve\<close> returns \<open>general_form\<close> with \<open>A\<close> and \<open>B\<close> substituted, whatever candidates
  follow, and otherwise it goes on with the candidates that follow.
\<close>

theorem candidate_accepted_iff_six_predicates:
  assumes "get_values n = pre @ (a, b) # post"
    and "list_all (\<lambda>item. \<not> six_predicates c (fst item) (snd item)) pre"
  shows "all_py (evaluated_funcs c (fst (evaluate_derivative_at_stationary_points c)) (a, b))
           = six_predicates c a b
       \<and> fst (solve c n) =
           (if six_predicates c a b
            then Func (evalf (general_form c) [SymA \<mapsto> of_int a, SymB \<mapsto> of_int b])
            else search c (fst (evaluate_derivative_at_stationary_points c)) post)"
proof -
  let ?vals = "fst (evaluate_derivative_at_stationary_points c)"
  have acc: "all_py (evaluated_funcs c ?vals (a, b)) = six_predicates c a b"
    by (rule accepted_iff)
  have "fst (solve c n) = search c ?vals (pre @ (a, b) # post)"
    by (simp add: fst_solve assms(1))
  also have "\<dots> = search c ?vals ((a, b) # post)"
    by (rule search_rejected_prefix) (rule list_all_rejected [OF assms(2)])
  also have "\<dots> = (if six_predicates c a b
            then Func (evalf (general_form c) [SymA \<mapsto> of_int a, SymB \<mapsto> of_int b])
            else search c ?vals post)"
    by (simp add: acc)
  finally show ?thesis using acc by simp
qed

theorem candidate_accepted_iff_six_predicates_witness:
  "get_values 1 = [(0, 0), (0, - 1), (0, 1), (- 1, 0)] @ (- 1, - 1) # [(- 1, 1), (1, 0), (1, - 1), (1, 1)]
   \<and> list_all (\<lambda>item. \<not> six_predicates example (fst item) (snd item)) [(0, 0), (0, - 1), (0, 1), (- 1, 0)]
   \<and> six_predicates example (- 1) (- 1)
   \<and> fst (solve example 1) = Func (evalf (general_form example) [SymA \<mapsto> - 1, SymB \<mapsto> - 1])"
proof -
  have g: "get_values 1 = [(0, 0), (0, - 1), (0, 1), (- 1, 0)] @ (- 1, - 1) # [(- 1, 1), (1, 0), (1, - 1), (1, 1)]"
    by (simp add: get_values_1)
  have r: "list_all (\<lambda>item. \<not> six_predicates example (fst item) (snd item)) [(0, 0), (0, - 1), (0, 1), (- 1, 0)]"
    by (simp add: six_example)
  have a: "six_predicates example (- 1) (- 1)"
    by (simp add: six_example)
  from candidate_accepted_iff_six_predicates [OF g r] a
  have "fst (solve example 1) = Func (evalf (general_form example) [SymA \<mapsto> - 1, SymB \<mapsto> - 1])"
    by simp
  with g r a show ?thesis by blast
qed

lemma first_accepted_le:
  assumes "i < length items" and "six_predicates c (fst (items ! i)) (snd (items ! i))"
  shows "first_accepted c items \<le> i"
proof (rule ccontr)
  let ?P = "\<lambda>item. \<not> six_predicates c (fst item) (snd item)"
  assume "\<not> first_accepted c items \<le> i"
  then have lt: "i < length (takeWhile ?P items)"
    by (simp add: first_accepted_def)
  then have "takeWhile ?P items ! i \<in> set (takeWhile ?P items)"
    by (rule nth_mem)
  then have "?P (takeWhile ?P items ! i)"
    by (rule set_takeWhileD [THEN conjunct2])
  with lt assms(2) show False
    by (simp add: takeWhile_nth)
qed

lemma search_first_accepted:
  assumes "first_accepted c items < length items"
  shows "six_predicates c (fst (items ! first_accepted c items)) (snd (items ! first_accepted c items))"
    and "list_all (\<lambda>item. \<not> six_predicates c (fst item) (snd item)) (take (first_accepted c items) items)"
    and "search c (fst (evaluate_derivative_at_stationary_points c)) (take (first_accepted c items) items @ items ! first_accepted c items # rest)
          = Func (evalf (general_form c)
                  [SymA \<mapsto> of_int (fst (items ! first_accepted c items)),
                   SymB \<mapsto> of_int (snd (items ! first_accepted c items))])"
proof -
  let ?P = "\<lambda>item. \<not> six_predicates c (fst item) (snd item)"
  let ?k = "first_accepted c items"
  let ?vals = "fst (evaluate_derivative_at_stationary_points c)"
  have k: "?k = length (takeWhile ?P items)"
    by (simp add: first_accepted_def)
  from assms have "\<not> ?P (items ! ?k)"
    unfolding k by (rule nth_length_takeWhile)
  then show a: "six_predicates c (fst (items ! ?k)) (snd (items ! ?k))"
    by simp
  have t: "take ?k items = takeWhile ?P items"
    unfolding k by (rule takeWhile_eq_take [symmetric])
  show r: "list_all ?P (take ?k items)"
    unfolding t by (simp add: list_all_iff) (metis set_takeWhileD)
  have "search c ?vals (take ?k items @ items ! ?k # rest) = search c ?vals (items ! ?k # rest)"
    by (rule search_rejected_prefix) (rule list_all_rejected [OF r])
  also have "\<dots> = Func (evalf (general_form c)
                  [SymA \<mapsto> of_int (fst (items ! ?k)), SymB \<mapsto> of_int (snd (items ! ?k))])"
    using a accepted_iff [of c "fst (items ! ?k)" "snd (items ! ?k)"] by simp
  finally show "search c ?vals (take ?k items @ items ! ?k # rest)
          = Func (evalf (general_form c)
                  [SymA \<mapsto> of_int (fst (items ! ?k)), SymB \<mapsto> of_int (snd (items ! ?k))])" .
qed

text \<open>
  Claim C3: the candidates are the Cartesian product of the number sequence with itself
  in row-major order, the first coordinate varying slowest; and if two candidates, at
  the positions \<open>i < j\<close>, both satisfy the six predicates, \<open>solve\<close> returns the solution
  built from the first candidate of the enumeration that satisfies them, at a position
  \<open>k \<le> i\<close> (the earlier of the two, \<open>k = i\<close>, when no candidate before it satisfies
  them), and its result is that of the search on the first \<open>k + 1\<close> candidates alone:
  no later candidate is examined.
\<close>

theorem solve_first_match:
  assumes "0 \<le> n" and "i < j" and "j < length (get_values n)"
    and "six_predicates c (fst (get_values n ! i)) (snd (get_values n ! i))"
    and "six_predicates c (fst (get_values n ! j)) (snd (get_values n ! j))"
  shows "get_values n = concat (map (\<lambda>v. map (Pair v) (numbers n)) (numbers n))
       \<and> (let items = get_values n; k = first_accepted c items
          in k \<le> i \<and> k < j
           \<and> (list_all (\<lambda>item. \<not> six_predicates c (fst item) (snd item)) (take i items)
                \<longrightarrow> k = i)
           \<and> six_predicates c (fst (items ! k)) (snd (items ! k))
           \<and> list_all (\<lambda>item. \<not> six_predicates c (fst item) (snd item)) (take k items)
           \<and> fst (solve c n) = Func (evalf (general_form c)
                 [SymA \<mapsto> of_int (fst (items ! k)), SymB \<mapsto> of_int (snd (items ! k))])
           \<and> fst (solve c n)
               = search c (fst (evaluate_derivative_at_stationary_points c)) (take (Suc k) items))"
proof -
  let ?items = "get_values n"
  let ?k = "first_accepted c ?items"
  let ?vals = "fst (evaluate_derivative_at_stationary_points c)"
  have order: "get_values n = concat (map (\<lambda>v. map (Pair v) (numbers n)) (numbers n))"
    using assms(1) by (simp add: get_values_def List.product_concat_map)
  have i: "i < length ?items"
    using assms(2,3) by simp
  have ki: "?k \<le> i"
    using i assms(4) by (rule first_accepted_le)
  then have kl: "?k < length ?items" and kj: "?k < j"
    using i assms(2) by simp_all
  note fa = search_first_accepted [OF kl]
  have earliest: "?k = i"
    if r: "list_all (\<lambda>item. \<not> six_predicates c (fst item) (snd item)) (take i ?items)"
  proof (rule ccontr)
    assume "?k \<noteq> i"
    with ki have "?k < i" by simp
    with i have "?items ! ?k \<in> set (take i ?items)"
      by (auto simp add: in_set_conv_nth intro!: exI [of _ "?k"])
    with r have "\<not> six_predicates c (fst (?items ! ?k)) (snd (?items ! ?k))"
      by (simp add: list_all_iff)
    with fa(1) show False by simp
  qed
  have split: "?items = take ?k ?items @ ?items ! ?k # drop (Suc ?k) ?items"
    using kl by (simp add: id_take_nth_drop [symmetric])
  have "fst (solve c n) = search c ?vals (take ?k ?items @ ?items ! ?k # drop (Suc ?k) ?items)"
    using split by (simp add: fst_solve)
  then have res: "fst (solve c n) = Func (evalf (general_form c)
         [SymA \<mapsto> of_int (fst (?items ! ?k)), SymB \<mapsto> of_int (snd (?items ! ?k))])"
    by (simp only: fa(3))
  have "take (Suc ?k) ?items = take ?k ?items @ ?items ! ?k # []"
    using kl by (simp add: take_Suc_conv_app_nth)
  then have "search c ?vals (take (Suc ?k) ?items) = Func (evalf (general_form c)
         [SymA \<mapsto> of_int (fst (?items ! ?k)), SymB \<mapsto> of_int (snd (?items ! ?k))])"
    by (simp only: fa(3))
  with res have pre: "fst (solve c n) = search c ?vals (take (Suc ?k) ?items)"
    by simp
  show ?thesis
    unfolding Let_def using order ki kj earliest fa(1) fa(2) res pre by blast
qed

lemma first_accepted_example: "first_accepted example (get_values 2) = 6"
  by (simp add: first_accepted_def get_values_2 six_example)

theorem solve_first_match_witness:
  "(0::int) \<le> 2 \<and> (6::nat) < 8 \<and> 8 < length (get_values 2)
   \<and> get_values 2 ! 6 = (- 1, - 1) \<and> get_values 2 ! 8 = (- 1, - 2)
   \<and> six_predicates example (- 1) (- 1) \<and> six_predicates example (- 1) (- 2)
   \<and> first_accepted example (get_values 2) = 6
   \<and> fst (solve example 2) = Func (evalf (general_form example) [SymA \<mapsto> - 1, SymB \<mapsto> - 1])"
proof -
  have h1: "(0::int) \<le> 2" and h2: "(6::nat) < 8" by simp_all
  have h3: "8 < length (get_values 2)" by (simp add: get_values_2)
  have v6: "get_values 2 ! 6 = (- 1, - 1)" and v8: "get_values 2 ! 8 = (- 1, - 2)"
    by (simp_all add: get_values_2)
  have a6: "six_predicates example (- 1) (- 1)" and a8: "six_predicates example (- 1) (- 2)"
    by (simp_all add: six_example)
  have h4: "six_predicates example (fst (get_values 2 ! 6)) (snd (get_values 2 ! 6))"
    using a6 by (simp add: v6)
  have h5: "six_predicates example (fst (get_values 2 ! 8)) (snd (get_values 2 ! 8))"
    using a8 by (simp add: v8)
  have k: "first_accepted example (get_values 2) = 6" by (rule first_accepted_example)
  from solve_first_match [OF h1 h2 h3 h4 h5]
  have "fst (solve example 2) = Func (evalf (general_form example) [SymA \<mapsto> - 1, SymB \<mapsto> - 1])"
    by (simp add: Let_def k v6)
  with h1 h2 h3 v6 v8 a6 a8 k show ?thesis by blast
qed

section \<open>The general form\<close>

lemma eval_diff_integrate_f_x:
  "eval env (diff (integrate (f_x (init_body maximum minimum saddle ps)) SymX) SymX)
     = eval env (f_x (init_body maximum minimum saddle ps))"
  by (simp add: init_body_f_x integrate_def mono_integrate_def diff_def mono_diff_def mono_eval_def)

lemma eval_diff_integrate_f_y:
  "eval env (diff (integrate (f_y (init_body maximum minimum saddle ps)) SymY) SymY)
     = eval env (f_y (init_body maximum minimum saddle ps))"
  by (simp add: init_body_f_y integrate_def mono_integrate_def diff_def mono_diff_def mono_eval_def)

text \<open>
  Claim C4: for every triple of stationary points, \<open>f_x\<close> is \<open>A x\<^sup>2 - A x max_x\<close> and
  \<open>f_y\<close> is \<open>B y\<^sup>2 - B y min_y\<close>; \<open>general_form\<close> is the sum of \<open>integrate(f_y, y)\<close>
  and \<open>integrate(f_x, x)\<close>, which are antiderivatives (differentiating them gives
  \<open>f_x\<close> and \<open>f_y\<close> back) with the constant of integration zero (they vanish at
  \<open>x = 0\<close> and at \<open>y = 0\<close>); and \<open>general_form\<close> is the polynomial
  \<open>A x\<^sup>3 / 3 - A max_x x\<^sup>2 / 2 + B y\<^sup>3 / 3 - B min_y y\<^sup>2 / 2\<close>.
\<close>

theorem general_form_antiderivative:
  "(let c = init_body (mx, my) (nx, ny) (sx, sy) ps; env = env_of x y a b
    in eval env (f_x c) = a * x\<^sup>2 - a * x * mx
     \<and> eval env (f_y c) = b * y\<^sup>2 - b * y * ny
     \<and> general_form c = add (integrate (f_y c) SymY) (integrate (f_x c) SymX)
     \<and> eval env (diff (integrate (f_x c) SymX) SymX) = eval env (f_x c)
     \<and> eval env (diff (integrate (f_y c) SymY) SymY) = eval env (f_y c)
     \<and> eval (env_of 0 y a b) (integrate (f_x c) SymX) = 0
     \<and> eval (env_of x 0 a b) (integrate (f_y c) SymY) = 0
     \<and> eval env (general_form c)
         = a * x ^ 3 / 3 - a * mx * x\<^sup>2 / 2 + b * y ^ 3 / 3 - b * ny * y\<^sup>2 / 2)"
proof -
  let ?c = "init_body (mx, my) (nx, ny) (sx, sy) ps"
  let ?env = "env_of x y a b"
  have 1: "eval ?env (f_x ?c) = a * x\<^sup>2 - a * x * mx"
    by (simp add: init_body_f_x mono_eval_def env_of_def algebra_simps)
  have 2: "eval ?env (f_y ?c) = b * y\<^sup>2 - b * y * ny"
    by (simp add: init_body_f_y mono_eval_def env_of_def algebra_simps)
  have 3: "general_form ?c = add (integrate (f_y ?c) SymY) (integrate (f_x ?c) SymX)"
    by (rule init_body_general_form)
  have 4: "eval ?env (diff (integrate (f_x ?c) SymX) SymX) = eval ?env (f_x ?c)"
    by (rule eval_diff_integrate_f_x)
  have 5: "eval ?env (diff (integrate (f_y ?c) SymY) SymY) = eval ?env (f_y ?c)"
    by (rule eval_diff_integrate_f_y)
  have 6: "eval (env_of 0 y a b) (integrate (f_x ?c) SymX) = 0"
    by (simp add: init_body_f_x integrate_def mono_integrate_def mono_eval_def env_of_def)
  have 7: "eval (env_of x 0 a b) (integrate (f_y ?c) SymY) = 0"
    by (simp add: init_body_f_y integrate_def mono_integrate_def mono_eval_def env_of_def)
  have 8: "eval ?env (general_form ?c)
         = a * x ^ 3 / 3 - a * mx * x\<^sup>2 / 2 + b * y ^ 3 / 3 - b * ny * y\<^sup>2 / 2"
    by (simp add: eval_general_form env_of_def)
  show ?thesis
    unfolding Let_def by (intro conjI 1 2 3 4 5 6 7 8)
qed

section \<open>The bounds below zero and zero\<close>

text \<open>
  Claim C5: for every bound \<open>n < 0\<close> the candidate sequence is empty and \<open>solve\<close>
  returns the not-found message, the loop having no candidate to evaluate a predicate
  on.
\<close>

theorem solve_negative_bound:
  assumes "n < 0"
  shows "get_values n = []
       \<and> fst (solve c n) = search c (fst (evaluate_derivative_at_stationary_points c)) []
       \<and> fst (solve c n) = Str ''Solution could not be found''"
  using assms by (simp add: fst_solve get_values_def)

theorem solve_negative_bound_witness:
  "(- 1 :: int) < 0 \<and> get_values (- 1) = []
     \<and> fst (solve example (- 1)) = Str ''Solution could not be found''"
  using solve_negative_bound [of "- 1" example] by simp

text \<open>
  Claim C6: for the bound \<open>0\<close> the only candidate is the pair \<open>(0, 0)\<close>; with \<open>A = 0\<close>
  the second derivative \<open>f_xx\<close> is zero everywhere, so the pair fails the six
  predicates and \<open>solve\<close> returns the not-found message, for every choice of the
  stationary points.
\<close>

theorem solve_bound_zero:
  "(let c = init_body maximum minimum saddle ps
    in get_values 0 = [(0, 0)]
     \<and> eval (env_of x y 0 b) (f_xx c) = 0
     \<and> \<not> six_predicates c 0 0
     \<and> fst (solve c 0) = Str ''Solution could not be found'')"
proof -
  let ?c = "init_body maximum minimum saddle ps"
  have z: "eval (env_of x y 0 b) (f_xx ?c) = 0" for x y b
    by (simp add: eval_f_xx env_of_def)
  have r: "\<not> six_predicates ?c 0 0"
    by (simp add: six_predicates_def z)
  have "fst (solve ?c 0) = Str ''Solution could not be found''"
    using r by (simp add: fst_solve get_values_0 accepted_iff)
  with z r show ?thesis
    by (simp add: Let_def get_values_0)
qed

section \<open>Diagnostic printing\<close>

text \<open>
  Claim C7: the solution \<open>solve\<close> returns is the same with diagnostic printing enabled
  and disabled, for every calculator and every bound: the flag changes neither the
  six values the predicates are evaluated on, nor the predicates, nor the result, on a
  calculator whose flag is set afterwards and on one constructed with the flag. Only
  the output differs: nothing is printed without the flag, one table with it.
\<close>

theorem solve_print_steps_noninterference:
  "fst (solve (c\<lparr>print_steps := True\<rparr>) n) = fst (solve (c\<lparr>print_steps := False\<rparr>) n)
   \<and> fst (evaluate_derivative_at_stationary_points (c\<lparr>print_steps := True\<rparr>))
       = fst (evaluate_derivative_at_stationary_points (c\<lparr>print_steps := False\<rparr>))
   \<and> evaluated_funcs (c\<lparr>print_steps := True\<rparr>) vals item
       = evaluated_funcs (c\<lparr>print_steps := False\<rparr>) vals item
   \<and> map_sum id (\<lambda>c. fst (solve c n)) (init maximum minimum saddle True)
       = map_sum id (\<lambda>c. fst (solve c n)) (init maximum minimum saddle False)
   \<and> snd (solve (c\<lparr>print_steps := False\<rparr>) n) = []
   \<and> length (snd (solve (c\<lparr>print_steps := True\<rparr>) n)) = 1"
proof -
  have 1: "fst (solve (c\<lparr>print_steps := p\<rparr>) n) = fst (solve c n)" for c p
    by (simp only: fst_solve evaluate_print_steps search_print_steps)
  have 2: "fst (evaluate_derivative_at_stationary_points (c\<lparr>print_steps := True\<rparr>))
       = fst (evaluate_derivative_at_stationary_points (c\<lparr>print_steps := False\<rparr>))"
    by (simp only: evaluate_print_steps)
  have 3: "evaluated_funcs (c\<lparr>print_steps := True\<rparr>) vals item
       = evaluated_funcs (c\<lparr>print_steps := False\<rparr>) vals item"
    by (simp add: evaluated_funcs_def)
  have b: "init_body mx mn sd p = (init_body mx mn sd False)\<lparr>print_steps := p\<rparr>" for mx mn sd p
    by (simp add: init_body_def Let_def get_first_order_partial_derivatives_def
          get_general_form_def get_second_partial_derivatives_def)
  have 4: "map_sum id (\<lambda>c. fst (solve c n)) (init maximum minimum saddle True)
       = map_sum id (\<lambda>c. fst (solve c n)) (init maximum minimum saddle False)"
    by (simp add: init_def b [of _ _ _ True] 1 split: sum.splits)
  have 5: "snd (solve (c\<lparr>print_steps := False\<rparr>) n) = []"
    by (simp add: solve_def evaluate_derivative_at_stationary_points_def Let_def)
  have 6: "length (snd (solve (c\<lparr>print_steps := True\<rparr>) n)) = 1"
    by (simp add: solve_def evaluate_derivative_at_stationary_points_def Let_def)
  show ?thesis
    using 1 [where p = True and c = c] 1 [where p = False and c = c] 2 3 4 5 6 by simp
qed

section \<open>The arguments of the constructor\<close>

lemma unpack2_length: "isl (unpack2 t) = (length t \<noteq> 2)"
  by (induction t rule: unpack2.induct) simp_all

lemma unpack2_pair: "length t = 2 \<Longrightarrow> unpack2 t = Inr (t ! 0, t ! 1)"
  by (induction t rule: unpack2.induct) simp_all

text \<open>
  Claim C8: the constructor succeeds for any three 2-element tuples, giving the
  calculator built from their coordinates, and fails with the unpacking error
  (\<open>ValueError\<close>) whenever one of the three arguments has another length; the error is
  that of the first argument, in the order maximum, minimum, saddle, that does not
  unpack, and the result is then the error alone, with no calculator.
\<close>

theorem init_unpacking:
  "(length maximum = 2 \<and> length minimum = 2 \<and> length saddle = 2 \<longrightarrow>
      init maximum minimum saddle ps
        = Inr (init_body (maximum ! 0, maximum ! 1) (minimum ! 0, minimum ! 1)
                 (saddle ! 0, saddle ! 1) ps))
   \<and> (length maximum \<noteq> 2 \<or> length minimum \<noteq> 2 \<or> length saddle \<noteq> 2 \<longrightarrow>
        (\<exists>e. init maximum minimum saddle ps = Inl e))
   \<and> (unpack2 maximum = Inl e \<longrightarrow> init maximum minimum saddle ps = Inl e)
   \<and> (length maximum = 2 \<and> unpack2 minimum = Inl e \<longrightarrow>
        init maximum minimum saddle ps = Inl e)
   \<and> (length maximum = 2 \<and> length minimum = 2 \<and> unpack2 saddle = Inl e \<longrightarrow>
        init maximum minimum saddle ps = Inl e)"
proof -
  have ok: "init maximum minimum saddle ps
        = Inr (init_body (maximum ! 0, maximum ! 1) (minimum ! 0, minimum ! 1)
                 (saddle ! 0, saddle ! 1) ps)"
    if "length maximum = 2" "length minimum = 2" "length saddle = 2"
    using that by (simp add: init_def unpack2_pair)
  have bad: "\<exists>e. init maximum minimum saddle ps = Inl e"
    if "length maximum \<noteq> 2 \<or> length minimum \<noteq> 2 \<or> length saddle \<noteq> 2"
  proof -
    from that have "isl (unpack2 maximum) \<or> isl (unpack2 minimum) \<or> isl (unpack2 saddle)"
      by (simp add: unpack2_length)
    then have "isl (init maximum minimum saddle ps)"
      by (auto simp add: init_def split: sum.splits)
    then show ?thesis
      by (cases "init maximum minimum saddle ps") simp_all
  qed
  have e1: "init maximum minimum saddle ps = Inl e" if "unpack2 maximum = Inl e"
    using that by (simp add: init_def)
  have e2: "init maximum minimum saddle ps = Inl e"
    if "length maximum = 2" "unpack2 minimum = Inl e"
    using that by (simp add: init_def unpack2_pair)
  have e3: "init maximum minimum saddle ps = Inl e"
    if "length maximum = 2" "length minimum = 2" "unpack2 saddle = Inl e"
    using that by (simp add: init_def unpack2_pair)
  show ?thesis
    using ok bad e1 e2 e3 by blast
qed

theorem init_unpacking_witness:
  "init [25, 15] [- 5, - 12] [0, 0] False = Inr example
   \<and> length [1, 2, 3 :: rat] \<noteq> 2
   \<and> unpack2 [1, 2, 3 :: rat] = Inl ValueError_too_many_values
   \<and> init [1, 2, 3] [0, 0] [0] False = Inl ValueError_too_many_values
   \<and> length [7 :: rat] \<noteq> 2
   \<and> init [1, 2] [0, 0] [7] False = Inl ValueError_not_enough_values"
  using init_unpacking [of "[25, 15]" "[- 5, - 12]" "[0, 0]" False]
    init_unpacking [of "[1, 2, 3]" "[0, 0]" "[0]" False ValueError_too_many_values]
    init_unpacking [of "[1, 2]" "[0, 0]" "[7]" False ValueError_not_enough_values]
  by (simp add: example_def)

section \<open>A maximum on the line \<open>x = 0\<close>\<close>

text \<open>
  Claim C10: if the x-coordinate of the maximum is \<open>0\<close>, then \<open>f_xx = 2 A x - A max_x\<close>
  at the maximum is \<open>A max_x = 0\<close> for every candidate, the predicate \<open>f_xx < 0\<close> at the
  maximum never holds, and \<open>solve\<close> returns the not-found message for every bound and
  every choice of the other two points.
\<close>

theorem solve_max_x_zero:
  assumes "fst maximum = 0"
  shows "(let c = init_body maximum minimum saddle ps
          in eval (env_of x y a b) (f_xx c) = 2 * a * x - a * fst maximum
           \<and> eval (env_of (max_x c) (max_y c) a b) (f_xx c) = a * fst maximum
           \<and> eval (env_of (max_x c) (max_y c) a b) (f_xx c) = 0
           \<and> \<not> six_predicates c i j
           \<and> fst (solve c n) = Str ''Solution could not be found'')"
proof -
  let ?c = "init_body maximum minimum saddle ps"
  have 1: "eval (env_of x y a b) (f_xx ?c) = 2 * a * x - a * fst maximum"
    by (simp add: eval_f_xx env_of_def)
  have 2: "eval (env_of (max_x ?c) (max_y ?c) a b) (f_xx ?c) = a * fst maximum" for a b
    by (simp add: eval_f_xx env_of_def init_body_points)
  have 3: "eval (env_of (max_x ?c) (max_y ?c) a b) (f_xx ?c) = 0" for a b
    using assms by (simp add: 2)
  have 4: "\<not> six_predicates ?c i j" for i j
    by (simp add: six_predicates_def 3)
  have "list_all (\<lambda>item. \<not> all_py (evaluated_funcs ?c
            (fst (evaluate_derivative_at_stationary_points ?c)) item)) (get_values n)"
    by (rule list_all_rejected) (simp add: list_all_iff 4)
  then have 5: "fst (solve ?c n) = Str ''Solution could not be found''"
    by (simp only: fst_solve search_none_accepted)
  show ?thesis
    unfolding Let_def by (intro conjI 1 2 3 4 5)
qed

theorem solve_max_x_zero_witness:
  "fst (0 :: rat, 3 :: rat) = 0
   \<and> fst (solve (init_body (0, 3) (- 5, - 12) (1, 1) False) 1) = Str ''Solution could not be found''
   \<and> fst (solve (init_body (0, 3) (- 5, - 12) (1, 1) True) 1000) = Str ''Solution could not be found''"
  using solve_max_x_zero [of "(0, 3)" "(- 5, - 12)" "(1, 1)" False _ _ _ _ _ _ 1]
    solve_max_x_zero [of "(0, 3)" "(- 5, - 12)" "(1, 1)" True _ _ _ _ _ _ 1000]
  by (simp add: Let_def)

end
